theory Spec2Isabelle
  imports Main "HOL-Library.Sublist"
begin

section \<open>OpenID-Connect login provider of mealie\<close>

text \<open>
  A shallow embedding of \<^verbatim>\<open>OpenIDProvider.authenticate\<close> and
  \<^verbatim>\<open>OpenIDProvider.required_claims\<close>
  (\<^verbatim>\<open>mealie/core/security/providers/openid_provider.py\<close>).

  The method reads the process-wide settings and the claims of an id token, calls the
  user repository and the database session, writes to a logger and returns a pair
  \<^verbatim>\<open>(token, timedelta)\<close>, returns \<^verbatim>\<open>None\<close>, or lets an exception escape.
  In the model the settings and the collaborators are parameters, the database is a
  state that every collaborator call threads through, and every collaborator call and
  every logger call is recorded, in program order, in a trace.
\<close>

subsection \<open>Data\<close>

text \<open>
  The value of a claim: Python's \<^verbatim>\<open>None\<close>, a \<^verbatim>\<open>str\<close>, or a list of \<^verbatim>\<open>str\<close>.
\<close>

datatype claim_value = CNone | CText string | CList "string list"

text \<open>
  The claims are a \<^verbatim>\<open>dict\<close> (authlib's \<^verbatim>\<open>UserInfo\<close>) from claim names to values,
  kept as an association list in insertion order; a lookup takes the first entry
  of a key.
\<close>

type_synonym claims = "(string \<times> claim_value) list"

text \<open>The options that \<^verbatim>\<open>get_app_settings()\<close> yields and the method reads.\<close>

record settings =
  OIDC_REQUIRES_GROUP_CLAIM :: bool
  OIDC_GROUPS_CLAIM :: string
  OIDC_ADMIN_GROUP :: "string option"
  OIDC_USER_GROUP :: "string option"
  OIDC_USER_CLAIM :: string
  OIDC_NAME_CLAIM :: string
  OIDC_SIGNUP_ENABLED :: bool
  OIDC_REMEMBER_ME :: bool

datatype AuthMethod = MEALIE | LDAP | OIDC

text \<open>A stored user (\<^verbatim>\<open>PrivateUser\<close>); the method reads \<^verbatim>\<open>id\<close> and \<^verbatim>\<open>admin\<close>.\<close>

record user =
  user_id :: nat
  username :: string
  full_name :: string
  email :: string
  admin :: bool
  auth_method :: AuthMethod

text \<open>The dictionary that the method passes to \<^verbatim>\<open>repos.users.create\<close>.\<close>

record create_data =
  d_username :: claim_value
  d_password :: string
  d_full_name :: claim_value
  d_email :: claim_value
  d_admin :: bool
  d_auth_method :: AuthMethod

text \<open>
  Exceptions. \<^verbatim>\<open>RepoError\<close> stands for any \<^verbatim>\<open>Exception\<close> that a collaborator
  raises, with its message.
\<close>

datatype exn = AttributeError | RepoError string

type_synonym token = string
type_synonym timedelta = nat

text \<open>
  The collaborators of the method, none of which is defined in the file: the inherited
  \<^verbatim>\<open>try_get_user\<close> and \<^verbatim>\<open>get_access_token\<close>, the user repository
  (\<^verbatim>\<open>repos.users.create\<close>, \<^verbatim>\<open>repos.users.update\<close>) and \<^verbatim>\<open>session.commit\<close>.
  Each one that writes returns either an exception or its value, together with the
  database as it has left it.
\<close>

record 's env =
  try_get_user :: "'s \<Rightarrow> claim_value \<Rightarrow> user option"
  users_create :: "'s \<Rightarrow> create_data \<Rightarrow> (exn + user) \<times> 's"
  session_commit :: "'s \<Rightarrow> (exn + unit) \<times> 's"
  users_update :: "'s \<Rightarrow> nat \<Rightarrow> user \<Rightarrow> (exn + user) \<times> 's"
  get_access_token :: "user \<Rightarrow> bool \<Rightarrow> token \<times> timedelta"

text \<open>The messages of the logger calls, in the order of the source.\<close>

datatype log_msg =
    Error_no_claims
  | Error_required_claims_not_present
  | Debug_user_groups claim_value
  | Debug_user_has_admin_group
  | Debug_user_has_required_user_group
  | Warning_no_required_group_membership
  | Debug_no_user_creation_disabled
  | Debug_no_user_creating
  | Error_exception_while_creating exn
  | Debug_setting_admin
  | Debug_removing_admin
  | Warning_auth_method_does_not_match

datatype event =
    Log log_msg
  | TryGetUser claim_value
  | UsersCreate create_data
  | SessionCommit
  | UsersUpdate nat user
  | GetAccessToken user bool

text \<open>
  What a call does: it raises (\<open>Inl\<close>), returns \<^verbatim>\<open>None\<close> (\<open>Inr None\<close>) or
  returns a token with its lifetime; the database after the call; the trace.
\<close>

type_synonym 's outcome = "(exn + (token \<times> timedelta) option) \<times> 's \<times> event list"

subsection \<open>Python primitives\<close>

text \<open>\<^verbatim>\<open>claims.keys()\<close> and \<^verbatim>\<open>claims.get(key, default)\<close>.\<close>

definition keys :: "claims \<Rightarrow> string set" where
  "keys claims = set (map fst claims)"

definition claims_get :: "claims \<Rightarrow> string \<Rightarrow> claim_value \<Rightarrow> claim_value" where
  "claims_get claims key dflt = (case map_of claims key of None \<Rightarrow> dflt | Some v \<Rightarrow> v)"

text \<open>Truth values: \<^verbatim>\<open>None\<close>, the empty string and the empty list are false.\<close>

fun truthy :: "claim_value \<Rightarrow> bool" where
  "truthy CNone = False"
| "truthy (CText s) = (s \<noteq> [])"
| "truthy (CList xs) = (xs \<noteq> [])"

text \<open>A setting of type \<^verbatim>\<open>str | None\<close> is true when it is a non-empty string.\<close>

fun configured :: "string option \<Rightarrow> bool" where
  "configured None = False"
| "configured (Some g) = (g \<noteq> [])"

text \<open>
  The variable \<^verbatim>\<open>user\<close> holds \<^verbatim>\<open>None\<close> or a \<^verbatim>\<open>PrivateUser\<close>, an object with
  neither \<^verbatim>\<open>__bool__\<close> nor \<^verbatim>\<open>__len__\<close>, which is true.
\<close>

fun truthy_user :: "user option \<Rightarrow> bool" where
  "truthy_user None = False"
| "truthy_user (Some u) = True"

text \<open>
  \<^verbatim>\<open>g in group_claim\<close>: membership in a list, containment as a substring in a
  string. On \<^verbatim>\<open>None\<close> Python raises a \<^verbatim>\<open>TypeError\<close>; the method never gets there,
  since \<^verbatim>\<open>or []\<close> has replaced \<^verbatim>\<open>None\<close> before (lemma \<open>group_claim_truthy_or_empty\<close>).
\<close>

fun py_in :: "string \<Rightarrow> claim_value \<Rightarrow> bool" where
  "py_in g (CList xs) = (g \<in> set xs)"
| "py_in g (CText s) = sublist g s"
| "py_in g CNone = False"

subsection \<open>The provider\<close>

text \<open>The property \<^verbatim>\<open>required_claims\<close> (lines 105 to 112).\<close>

definition required_claims :: "settings \<Rightarrow> string set" where
  "required_claims st =
     (let claims = {OIDC_NAME_CLAIM st, ''email'', OIDC_USER_CLAIM st}
      in if OIDC_REQUIRES_GROUP_CLAIM st then insert (OIDC_GROUPS_CLAIM st) claims else claims)"

text \<open>
  Line 42: \<^verbatim>\<open>group_claim = claims.get(settings.OIDC_GROUPS_CLAIM, []) or []\<close>.
\<close>

definition group_claim :: "settings \<Rightarrow> claims \<Rightarrow> claim_value" where
  "group_claim st claims =
     (let v = claims_get claims (OIDC_GROUPS_CLAIM st) (CList [])
      in if truthy v then v else CList [])"

text \<open>
  Line 46, the value of \<^verbatim>\<open>is_admin\<close> inside the group check:
  \<^verbatim>\<open>settings.OIDC_ADMIN_GROUP in group_claim if settings.OIDC_ADMIN_GROUP else False\<close>.
\<close>

definition admin_group_check :: "settings \<Rightarrow> claims \<Rightarrow> bool" where
  "admin_group_check st claims =
     (case OIDC_ADMIN_GROUP st of
        None \<Rightarrow> False
      | Some g \<Rightarrow> if g \<noteq> [] then py_in g (group_claim st claims) else False)"

text \<open>
  Line 51, \<^verbatim>\<open>is_valid_user\<close>:
  \<^verbatim>\<open>settings.OIDC_USER_GROUP in group_claim if settings.OIDC_USER_GROUP else True\<close>.
\<close>

definition is_valid_user :: "settings \<Rightarrow> claims \<Rightarrow> bool" where
  "is_valid_user st claims =
     (case OIDC_USER_GROUP st of
        None \<Rightarrow> True
      | Some g \<Rightarrow> if g \<noteq> [] then py_in g (group_claim st claims) else True)"

text \<open>
  Lines 40 to 46: \<^verbatim>\<open>is_admin\<close> is \<^verbatim>\<open>False\<close> unless the group check runs.
\<close>

definition is_admin :: "settings \<Rightarrow> claims \<Rightarrow> bool" where
  "is_admin st claims =
     (if OIDC_REQUIRES_GROUP_CLAIM st then admin_group_check st claims else False)"

text \<open>
  The logger calls of lines 43 to 53, made when the group check runs and before it
  decides.
\<close>

definition group_log :: "settings \<Rightarrow> claims \<Rightarrow> event list" where
  "group_log st claims =
     (if OIDC_REQUIRES_GROUP_CLAIM st
      then [Log (Debug_user_groups (group_claim st claims))]
        @ (if admin_group_check st claims then [Log Debug_user_has_admin_group] else [])
        @ (if is_valid_user st claims then [Log Debug_user_has_required_user_group] else [])
      else [])"

text \<open>
  Lines 74 to 86: the user name, preferring \<^verbatim>\<open>preferred_username\<close>, then
  \<^verbatim>\<open>username\<close>, then the configured user claim (each \<^verbatim>\<open>get\<close> falls back only when
  the key is missing), and the dictionary passed to \<^verbatim>\<open>repos.users.create\<close>.
\<close>

definition new_username :: "settings \<Rightarrow> claims \<Rightarrow> claim_value" where
  "new_username st claims =
     claims_get claims ''preferred_username''
       (claims_get claims ''username'' (claims_get claims (OIDC_USER_CLAIM st) CNone))"

definition new_user_data :: "settings \<Rightarrow> claims \<Rightarrow> bool \<Rightarrow> create_data" where
  "new_user_data st claims adm =
     \<lparr> d_username = new_username st claims,
       d_password = ''OIDC'',
       d_full_name = claims_get claims (OIDC_NAME_CLAIM st) CNone,
       d_email = claims_get claims ''email'' CNone,
       d_admin = adm,
       d_auth_method = OIDC \<rparr>"

text \<open>
  Lines 69 to 93, the branch that creates a user. \<^verbatim>\<open>tr\<close> is the trace so far. An
  exception of \<^verbatim>\<open>create\<close> or of \<^verbatim>\<open>commit\<close> is caught by \<^verbatim>\<open>except Exception\<close>,
  logged, and the method returns \<^verbatim>\<open>None\<close>.
\<close>

definition create_user :: "'s env \<Rightarrow> settings \<Rightarrow> claims \<Rightarrow> bool \<Rightarrow> 's \<Rightarrow> event list \<Rightarrow> 's outcome" where
  "create_user env st claims adm s tr =
     (let d = new_user_data st claims adm;
          tr1 = tr @ [Log Debug_no_user_creating, UsersCreate d]
      in case users_create env s d of
           (Inl e, s1) \<Rightarrow> (Inr None, s1, tr1 @ [Log (Error_exception_while_creating e)])
         | (Inr u, s1) \<Rightarrow>
             (case session_commit env s1 of
                (Inl e, s2) \<Rightarrow>
                  (Inr None, s2, tr1 @ [SessionCommit, Log (Error_exception_while_creating e)])
              | (Inr _, s2) \<Rightarrow>
                  (Inr (Some (get_access_token env u (OIDC_REMEMBER_ME st))), s2,
                   tr1 @ [SessionCommit, GetAccessToken u (OIDC_REMEMBER_ME st)])))"

text \<open>
  Lines 96 to 100, the branch of a user that was found. The update is not inside a
  \<^verbatim>\<open>try\<close>: an exception of \<^verbatim>\<open>repos.users.update\<close> leaves the method.
\<close>

definition sync_admin :: "'s env \<Rightarrow> settings \<Rightarrow> bool \<Rightarrow> user \<Rightarrow> 's \<Rightarrow> event list \<Rightarrow> 's outcome" where
  "sync_admin env st adm u s tr =
     (if configured (OIDC_ADMIN_GROUP st) \<and> admin u \<noteq> adm
      then
        (let u' = u\<lparr>admin := adm\<rparr>;
             tr1 = tr @ [Log (if adm then Debug_setting_admin else Debug_removing_admin),
                         UsersUpdate (user_id u') u']
         in case users_update env s (user_id u') u' of
              (Inl e, s1) \<Rightarrow> (Inl e, s1, tr1)
            | (Inr _, s1) \<Rightarrow>
                (Inr (Some (get_access_token env u' (OIDC_REMEMBER_ME st))), s1,
                 tr1 @ [GetAccessToken u' (OIDC_REMEMBER_ME st)]))
      else
        (Inr (Some (get_access_token env u (OIDC_REMEMBER_ME st))), s,
         tr @ [GetAccessToken u (OIDC_REMEMBER_ME st)]))"

text \<open>
  \<^verbatim>\<open>authenticate\<close> (lines 21 to 103). In the branch \<^verbatim>\<open>if user:\<close> the variable holds
  an object; were it \<^verbatim>\<open>None\<close>, reading \<^verbatim>\<open>user.admin\<close> would raise.
\<close>

definition authenticate :: "'s env \<Rightarrow> settings \<Rightarrow> claims \<Rightarrow> 's \<Rightarrow> 's outcome" where
  "authenticate env st claims s =
     (if claims = [] then (Inr None, s, [Log Error_no_claims])
      else if \<not> required_claims st \<subseteq> keys claims
      then (Inr None, s, [Log Error_required_claims_not_present])
      else if OIDC_REQUIRES_GROUP_CLAIM st \<and> \<not> (is_valid_user st claims \<or> is_admin st claims)
      then (Inr None, s, group_log st claims @ [Log Warning_no_required_group_membership])
      else
        (let name = claims_get claims (OIDC_USER_CLAIM st) CNone;
             user = try_get_user env s name;
             tr = group_log st claims @ [TryGetUser name]
         in if \<not> truthy_user user
            then
              (if \<not> OIDC_SIGNUP_ENABLED st
               then (Inr None, s, tr @ [Log Debug_no_user_creation_disabled])
               else create_user env st claims (is_admin st claims) s tr)
            else if truthy_user user
            then
              (case user of
                 Some u \<Rightarrow> sync_admin env st (is_admin st claims) u s tr
               | None \<Rightarrow> (Inl AttributeError, s, tr))
            else (Inr None, s, tr @ [Log Warning_auth_method_does_not_match])))"

text \<open>The three parts of an outcome.\<close>

definition result :: "'s outcome \<Rightarrow> exn + (token \<times> timedelta) option" where
  "result out = fst out"

definition final_db :: "'s outcome \<Rightarrow> 's" where
  "final_db out = fst (snd out)"

definition trace :: "'s outcome \<Rightarrow> event list" where
  "trace out = snd (snd out)"

subsection \<open>Reading a trace\<close>

text \<open>
  The kinds of events: a lookup in the user repository, a write to it (a create or an
  update), a commit, the issue of an access token, a log line.
\<close>

fun is_lookup :: "event \<Rightarrow> bool" where
  "is_lookup (TryGetUser _) = True"
| "is_lookup _ = False"

fun is_write :: "event \<Rightarrow> bool" where
  "is_write (UsersCreate _) = True"
| "is_write (UsersUpdate _ _) = True"
| "is_write _ = False"

fun is_commit :: "event \<Rightarrow> bool" where
  "is_commit SessionCommit = True"
| "is_commit _ = False"

fun is_issue :: "event \<Rightarrow> bool" where
  "is_issue (GetAccessToken _ _) = True"
| "is_issue _ = False"

fun is_log :: "event \<Rightarrow> bool" where
  "is_log (Log _) = True"
| "is_log _ = False"

text \<open>
  The condition under which a call gets as far as line 63, the lookup of the user: the
  claims are not empty, the required claims are present, and the group check, when it
  runs, lets the user through (lemma \<open>reaches_lookup_iff\<close>).
\<close>

definition reaches_lookup :: "settings \<Rightarrow> claims \<Rightarrow> bool" where
  "reaches_lookup st claims \<longleftrightarrow>
     claims \<noteq> [] \<and> required_claims st \<subseteq> keys claims \<and>
     (OIDC_REQUIRES_GROUP_CLAIM st \<longrightarrow> is_valid_user st claims \<or> is_admin st claims)"

subsection \<open>A repository in memory\<close>

text \<open>
  Modelled from the spec: the collaborators whose code is not in
  \<^verbatim>\<open>openid_provider.py\<close>, over a database that is a list of users. The lookup
  finds a user whose username equals the value of the user claim and whose
  auth-method is OIDC (section 4.1, step 4); the repository creates and updates one
  user record (section 6); the credential issuer gives a token and its lifetime for
  a user and the remember-me flag. The theorems below hold for every environment;
  this one runs the model on concrete inputs.
\<close>

definition mem_try_get_user :: "user list \<Rightarrow> claim_value \<Rightarrow> user option" where
  "mem_try_get_user db name =
     (case name of
        CText n \<Rightarrow> find (\<lambda>u. username u = n \<and> auth_method u = OIDC) db
      | _ \<Rightarrow> None)"

definition mem_users_create :: "user list \<Rightarrow> create_data \<Rightarrow> (exn + user) \<times> user list" where
  "mem_users_create db d =
     (case (d_username d, d_full_name d, d_email d) of
        (CText n, CText f, CText e) \<Rightarrow>
          (let u = \<lparr> user_id = length db, username = n, full_name = f, email = e,
                     admin = d_admin d, auth_method = d_auth_method d \<rparr>
           in (Inr u, db @ [u]))
      | _ \<Rightarrow> (Inl (RepoError ''validation error''), db))"

definition mem_session_commit :: "user list \<Rightarrow> (exn + unit) \<times> user list" where
  "mem_session_commit db = (Inr (), db)"

definition mem_users_update :: "user list \<Rightarrow> nat \<Rightarrow> user \<Rightarrow> (exn + user) \<times> user list" where
  "mem_users_update db i u = (Inr u, map (\<lambda>x. if user_id x = i then u else x) db)"

definition mem_get_access_token :: "user \<Rightarrow> bool \<Rightarrow> token \<times> timedelta" where
  "mem_get_access_token u remember = (''token for '' @ username u, if remember then 336 else 48)"

definition mem_env :: "user list env" where
  "mem_env = \<lparr> try_get_user = mem_try_get_user, users_create = mem_users_create,
               session_commit = mem_session_commit, users_update = mem_users_update,
               get_access_token = mem_get_access_token \<rparr>"

text \<open>The exception of a database that cannot be written.\<close>

definition db_down :: exn where
  "db_down = RepoError ''database is locked''"

text \<open>
  Settings with both groups configured, the claims of a user \<^verbatim>\<open>bob\<close> with a given
  list of groups, and his stored record with a given admin flag.
\<close>

definition example_settings :: settings where
  "example_settings =
     \<lparr> OIDC_REQUIRES_GROUP_CLAIM = True, OIDC_GROUPS_CLAIM = ''groups'',
       OIDC_ADMIN_GROUP = Some ''admins'', OIDC_USER_GROUP = Some ''users'',
       OIDC_USER_CLAIM = ''email'', OIDC_NAME_CLAIM = ''name'',
       OIDC_SIGNUP_ENABLED = True, OIDC_REMEMBER_ME = False \<rparr>"

definition example_claims :: "string list \<Rightarrow> claims" where
  "example_claims gs =
     [(''email'', CText ''bob@example.com''), (''name'', CText ''Bob''),
      (''preferred_username'', CText ''bob''), (''groups'', CList gs)]"

definition bob :: "bool \<Rightarrow> user" where
  "bob adm = \<lparr> user_id = 0, username = ''bob@example.com'', full_name = ''Bob'',
               email = ''bob@example.com'', admin = adm, auth_method = OIDC \<rparr>"

text \<open>The user that the repository in memory creates from \<open>example_claims\<close>.\<close>

definition new_bob :: "bool \<Rightarrow> user" where
  "new_bob adm = \<lparr> user_id = 0, username = ''bob'', full_name = ''Bob'',
                   email = ''bob@example.com'', admin = adm, auth_method = OIDC \<rparr>"

text \<open>
  Settings where the group check runs and no admin group is configured, and settings
  where an admin group is configured and the group check is off.
\<close>

definition settings_no_admin_group :: settings where
  "settings_no_admin_group = example_settings\<lparr>OIDC_ADMIN_GROUP := None\<rparr>"

definition settings_group_check_off :: settings where
  "settings_group_check_off = example_settings\<lparr>OIDC_REQUIRES_GROUP_CLAIM := False\<rparr>"

text \<open>Environments in which one call of the persistence layer raises.\<close>

definition env_create_raises :: "user list env" where
  "env_create_raises = mem_env\<lparr>users_create := \<lambda>db d. (Inl db_down, db)\<rparr>"

definition env_commit_raises :: "user list env" where
  "env_commit_raises = mem_env\<lparr>session_commit := \<lambda>db. (Inl db_down, db)\<rparr>"

definition env_update_raises :: "user list env" where
  "env_update_raises = mem_env\<lparr>users_update := \<lambda>db i u. (Inl db_down, db)\<rparr>"

section \<open>Properties\<close>

subsection \<open>Unfolding the model\<close>

lemmas model_defs =
  authenticate_def create_user_def sync_admin_def new_user_data_def new_username_def
  is_admin_def admin_group_check_def is_valid_user_def group_claim_def group_log_def
  required_claims_def keys_def claims_get_def

lemmas example_defs =
  mem_env_def mem_try_get_user_def mem_users_create_def mem_session_commit_def
  mem_users_update_def mem_get_access_token_def example_settings_def example_claims_def
  bob_def new_bob_def db_down_def settings_no_admin_group_def settings_group_check_off_def
  env_create_raises_def env_commit_raises_def env_update_raises_def

lemma outcome_simps [simp]:
  "result (r, s, tr) = r" "final_db (r, s, tr) = s" "trace (r, s, tr) = tr"
  by (simp_all add: result_def final_db_def trace_def)

text \<open>\<^verbatim>\<open>or []\<close> leaves a list or a non-empty string, never \<^verbatim>\<open>None\<close>.\<close>

lemma group_claim_truthy_or_empty:
  "group_claim st claims = CList [] \<or> truthy (group_claim st claims)"
  by (simp add: group_claim_def Let_def)

lemma group_claim_not_None: "group_claim st claims \<noteq> CNone"
  using group_claim_truthy_or_empty [of st claims] by auto

lemma group_claim_list:
  assumes "map_of claims (OIDC_GROUPS_CLAIM st) = Some (CList gs)
     \<or> (map_of claims (OIDC_GROUPS_CLAIM st) = None
        \<or> map_of claims (OIDC_GROUPS_CLAIM st) = Some CNone) \<and> gs = []"
  shows "group_claim st claims = CList gs"
  using assms by (auto simp: group_claim_def claims_get_def Let_def)

text \<open>The group check only logs.\<close>

lemma group_log_is_log: "e \<in> set (group_log st claims) \<Longrightarrow> is_log e"
  by (auto simp: group_log_def split: if_splits)

lemma filter_group_log:
  "(\<And>m. \<not> P (Log m)) \<Longrightarrow> filter P (group_log st claims) = []"
  by (auto simp: group_log_def)

subsection \<open>The three ways through the method\<close>

text \<open>A call that does not reach the lookup returns \<^verbatim>\<open>None\<close> and has only logged.\<close>

lemma authenticate_refused_early:
  assumes "\<not> reaches_lookup st claims"
  shows "result (authenticate env st claims s) = Inr None"
    and "final_db (authenticate env st claims s) = s"
    and "\<And>P. (\<And>m. \<not> P (Log m)) \<Longrightarrow> filter P (trace (authenticate env st claims s)) = []"
  using assms by (auto simp: reaches_lookup_def authenticate_def Let_def filter_group_log)

text \<open>A call that finds a user goes on in \<open>sync_admin\<close>.\<close>

lemma authenticate_found:
  assumes "reaches_lookup st claims"
    and "try_get_user env s (claims_get claims (OIDC_USER_CLAIM st) CNone) = Some u"
  shows "authenticate env st claims s =
     sync_admin env st (is_admin st claims) u s
       (group_log st claims @ [TryGetUser (claims_get claims (OIDC_USER_CLAIM st) CNone)])"
  using assms by (auto simp: reaches_lookup_def authenticate_def Let_def)

text \<open>A call that finds none refuses, or goes on in \<open>create_user\<close>.\<close>

lemma authenticate_not_found:
  assumes "reaches_lookup st claims"
    and "try_get_user env s (claims_get claims (OIDC_USER_CLAIM st) CNone) = None"
  shows "authenticate env st claims s =
     (if \<not> OIDC_SIGNUP_ENABLED st
      then (Inr None, s, group_log st claims
              @ [TryGetUser (claims_get claims (OIDC_USER_CLAIM st) CNone),
                 Log Debug_no_user_creation_disabled])
      else create_user env st claims (is_admin st claims) s
        (group_log st claims @ [TryGetUser (claims_get claims (OIDC_USER_CLAIM st) CNone)]))"
  using assms by (auto simp: reaches_lookup_def authenticate_def Let_def)

lemma create_user_trace_mono:
  "e \<in> set tr \<Longrightarrow> e \<in> set (trace (create_user env st claims adm s tr))"
  by (simp add: create_user_def Let_def split: prod.splits sum.splits)

lemma sync_admin_trace_mono:
  "e \<in> set tr \<Longrightarrow> e \<in> set (trace (sync_admin env st adm u s tr))"
  by (simp add: sync_admin_def Let_def split: prod.splits sum.splits)

text \<open>\<open>reaches_lookup\<close> holds exactly when the call looks the user up.\<close>

lemma reaches_lookup_iff:
  "reaches_lookup st claims \<longleftrightarrow>
     TryGetUser (claims_get claims (OIDC_USER_CLAIM st) CNone)
       \<in> set (trace (authenticate env st claims s))"
proof
  assume r: "reaches_lookup st claims"
  let ?name = "claims_get claims (OIDC_USER_CLAIM st) CNone"
  let ?tr = "group_log st claims @ [TryGetUser ?name]"
  have in_tr: "TryGetUser ?name \<in> set ?tr"
    by simp
  show "TryGetUser ?name \<in> set (trace (authenticate env st claims s))"
  proof (cases "try_get_user env s ?name")
    case None
    show ?thesis
    proof (cases "OIDC_SIGNUP_ENABLED st")
      case True
      with r None have "authenticate env st claims s
          = create_user env st claims (is_admin st claims) s ?tr"
        by (simp add: authenticate_not_found)
      then show ?thesis
        using create_user_trace_mono [OF in_tr] by simp
    next
      case False
      with r None show ?thesis
        by (simp add: authenticate_not_found)
    qed
  next
    case (Some u)
    with r have "authenticate env st claims s
        = sync_admin env st (is_admin st claims) u s ?tr"
      by (simp add: authenticate_found)
    then show ?thesis
      using sync_admin_trace_mono [OF in_tr] by simp
  qed
next
  assume t: "TryGetUser (claims_get claims (OIDC_USER_CLAIM st) CNone)
       \<in> set (trace (authenticate env st claims s))"
  show "reaches_lookup st claims"
  proof (rule ccontr)
    assume "\<not> reaches_lookup st claims"
    then have "filter is_lookup (trace (authenticate env st claims s)) = []"
      by (simp add: authenticate_refused_early)
    then have "\<forall>e \<in> set (trace (authenticate env st claims s)). \<not> is_lookup e"
      by (simp add: filter_empty_conv)
    with t show False
      by fastforce
  qed
qed

text \<open>Past the check of line 30 the three claims that are always required have values.\<close>

lemma required_present:
  assumes "reaches_lookup st claims"
  shows "\<exists>n e u. map_of claims (OIDC_NAME_CLAIM st) = Some n
      \<and> map_of claims ''email'' = Some e \<and> map_of claims (OIDC_USER_CLAIM st) = Some u"
proof -
  from assms have "{OIDC_NAME_CLAIM st, ''email'', OIDC_USER_CLAIM st} \<subseteq> fst ` set claims"
    by (auto simp: reaches_lookup_def required_claims_def keys_def Let_def split: if_splits)
  then have "map_of claims (OIDC_NAME_CLAIM st) \<noteq> None" "map_of claims ''email'' \<noteq> None"
    "map_of claims (OIDC_USER_CLAIM st) \<noteq> None"
    by (simp_all add: map_of_eq_None_iff)
  then show ?thesis
    by auto
qed

subsection \<open>Runs on concrete inputs\<close>

lemma reaches_lookup_examples:
  "reaches_lookup example_settings (example_claims gs) \<longleftrightarrow> ''users'' \<in> set gs \<or> ''admins'' \<in> set gs"
  "reaches_lookup settings_no_admin_group (example_claims gs) \<longleftrightarrow> ''users'' \<in> set gs"
  "reaches_lookup settings_group_check_off (example_claims gs)"
  by (auto simp: reaches_lookup_def model_defs example_defs Let_def)

lemma lookup_examples:
  "try_get_user mem_env [bob adm] (claims_get (example_claims gs) ''email'' CNone) = Some (bob adm)"
  "try_get_user mem_env [] name = None"
  "try_get_user env_create_raises [] name = None"
  "try_get_user env_commit_raises [] name = None"
  "try_get_user env_update_raises [bob adm] (claims_get (example_claims gs) ''email'' CNone)
     = Some (bob adm)"
  by (simp_all add: model_defs example_defs split: claim_value.splits)

text \<open>
  Bob is an admin in the database and his token names the user group only: he is
  demoted and gets a token.
\<close>

lemma run_existing_user_group:
  "authenticate mem_env example_settings (example_claims [''users'']) [bob True] =
     (Inr (Some (''token for bob@example.com'', 48)), [bob False],
      [Log (Debug_user_groups (CList [''users''])), Log Debug_user_has_required_user_group,
       TryGetUser (CText ''bob@example.com''), Log Debug_removing_admin,
       UsersUpdate 0 (bob False), GetAccessToken (bob False) False])"
  by (simp add: model_defs example_defs Let_def)

text \<open>Bob is no admin in the database and his token names the admin group only.\<close>

lemma run_existing_admin_group:
  "authenticate mem_env example_settings (example_claims [''admins'']) [bob False] =
     (Inr (Some (''token for bob@example.com'', 48)), [bob True],
      [Log (Debug_user_groups (CList [''admins''])), Log Debug_user_has_admin_group,
       TryGetUser (CText ''bob@example.com''), Log Debug_setting_admin,
       UsersUpdate 0 (bob True), GetAccessToken (bob True) False])"
  by (simp add: model_defs example_defs Let_def)

text \<open>Bob is in neither group.\<close>

lemma run_neither_group:
  "authenticate mem_env example_settings (example_claims [''guests'']) [bob True] =
     (Inr None, [bob True],
      [Log (Debug_user_groups (CList [''guests''])), Log Warning_no_required_group_membership])"
  by (simp add: model_defs example_defs Let_def)

text \<open>Bob is unknown and is created, here from a token that names the user group.\<close>

lemma run_new_user:
  "authenticate mem_env example_settings (example_claims [''users'']) [] =
     (Inr (Some (''token for bob'', 48)), [new_bob False],
      [Log (Debug_user_groups (CList [''users''])), Log Debug_user_has_required_user_group,
       TryGetUser (CText ''bob@example.com''), Log Debug_no_user_creating,
       UsersCreate \<lparr>d_username = CText ''bob'', d_password = ''OIDC'',
         d_full_name = CText ''Bob'', d_email = CText ''bob@example.com'',
         d_admin = False, d_auth_method = OIDC\<rparr>,
       SessionCommit, GetAccessToken (new_bob False) False])"
  by (simp add: model_defs example_defs Let_def)

section \<open>The claims\<close>

subsection \<open>Refusals before the lookup\<close>

text \<open>
  Claim C5. When the claims are empty, or their keys do not include every required
  claim (the name claim, \<^verbatim>\<open>email\<close> and the user claim, and the groups claim too when
  the group check is on), \<open>authenticate\<close> returns \<^verbatim>\<open>None\<close>, leaves the database as
  it was, and has made no lookup, no write and no commit.
\<close>

theorem missing_claims_refused:
  assumes "claims = [] \<or>
     \<not> ({OIDC_NAME_CLAIM st, ''email'', OIDC_USER_CLAIM st}
          \<union> (if OIDC_REQUIRES_GROUP_CLAIM st then {OIDC_GROUPS_CLAIM st} else {})) \<subseteq> keys claims"
  shows "result (authenticate env st claims s) = Inr None
      \<and> final_db (authenticate env st claims s) = s
      \<and> filter (\<lambda>e. is_lookup e \<or> is_write e \<or> is_commit e)
           (trace (authenticate env st claims s)) = []"
proof -
  from assms have "\<not> reaches_lookup st claims"
    by (auto simp: reaches_lookup_def required_claims_def Let_def split: if_splits)
  then show ?thesis
    by (simp add: authenticate_refused_early)
qed

text \<open>
  Bob's claims without the groups claim, and no claims at all, with Bob in the
  database.
\<close>

theorem missing_claims_refused_witness:
  "\<not> ({OIDC_NAME_CLAIM example_settings, ''email'', OIDC_USER_CLAIM example_settings}
        \<union> (if OIDC_REQUIRES_GROUP_CLAIM example_settings
            then {OIDC_GROUPS_CLAIM example_settings} else {}))
       \<subseteq> keys [(''email'', CText ''bob@example.com''), (''name'', CText ''Bob'')]
   \<and> result (authenticate mem_env example_settings
        [(''email'', CText ''bob@example.com''), (''name'', CText ''Bob'')] [bob True]) = Inr None
   \<and> final_db (authenticate mem_env example_settings
        [(''email'', CText ''bob@example.com''), (''name'', CText ''Bob'')] [bob True]) = [bob True]
   \<and> result (authenticate mem_env example_settings [] [bob True]) = Inr None
   \<and> trace (authenticate mem_env example_settings [] [bob True]) = [Log Error_no_claims]"
proof -
  let ?c = "[(''email'', CText ''bob@example.com''), (''name'', CText ''Bob'')]"
  have h: "\<not> ({OIDC_NAME_CLAIM example_settings, ''email'', OIDC_USER_CLAIM example_settings}
        \<union> (if OIDC_REQUIRES_GROUP_CLAIM example_settings
            then {OIDC_GROUPS_CLAIM example_settings} else {})) \<subseteq> keys ?c"
    by (simp add: example_settings_def keys_def)
  have t: "trace (authenticate mem_env example_settings [] [bob True]) = [Log Error_no_claims]"
    by (simp add: authenticate_def)
  from h have "result (authenticate mem_env example_settings ?c [bob True]) = Inr None
      \<and> final_db (authenticate mem_env example_settings ?c [bob True]) = [bob True]"
    using missing_claims_refused [of ?c example_settings mem_env "[bob True]"] by blast
  moreover have "result (authenticate mem_env example_settings [] [bob True]) = Inr None"
    using missing_claims_refused [of "[]" example_settings mem_env "[bob True]"] by blast
  ultimately show ?thesis
    using h t by blast
qed

subsection \<open>No user and no signup\<close>

text \<open>
  Claim C7. When the lookup with the value of the user claim finds no user and
  \<^verbatim>\<open>OIDC_SIGNUP_ENABLED\<close> is false, \<open>authenticate\<close> returns \<^verbatim>\<open>None\<close>, the
  database is as it was, and the call has made no create, no update and no commit.
\<close>

theorem signup_disabled_refused:
  assumes "try_get_user env s (claims_get claims (OIDC_USER_CLAIM st) CNone) = None"
    and "\<not> OIDC_SIGNUP_ENABLED st"
  shows "result (authenticate env st claims s) = Inr None
      \<and> final_db (authenticate env st claims s) = s
      \<and> filter (\<lambda>e. is_write e \<or> is_commit e) (trace (authenticate env st claims s)) = []"
proof (cases "reaches_lookup st claims")
  case True
  with assms show ?thesis
    by (simp add: authenticate_not_found filter_group_log)
next
  case False
  then show ?thesis
    by (simp add: authenticate_refused_early)
qed

text \<open>Bob is unknown, in the user group, and signup is off.\<close>

theorem signup_disabled_refused_witness:
  "try_get_user mem_env []
       (claims_get (example_claims [''users''])
          (OIDC_USER_CLAIM (example_settings\<lparr>OIDC_SIGNUP_ENABLED := False\<rparr>)) CNone) = None
   \<and> \<not> OIDC_SIGNUP_ENABLED (example_settings\<lparr>OIDC_SIGNUP_ENABLED := False\<rparr>)
   \<and> result (authenticate mem_env (example_settings\<lparr>OIDC_SIGNUP_ENABLED := False\<rparr>)
        (example_claims [''users'']) []) = Inr None
   \<and> final_db (authenticate mem_env (example_settings\<lparr>OIDC_SIGNUP_ENABLED := False\<rparr>)
        (example_claims [''users'']) []) = []
   \<and> TryGetUser (CText ''bob@example.com'')
        \<in> set (trace (authenticate mem_env (example_settings\<lparr>OIDC_SIGNUP_ENABLED := False\<rparr>)
              (example_claims [''users'']) []))"
proof -
  let ?st = "example_settings\<lparr>OIDC_SIGNUP_ENABLED := False\<rparr>"
  have h1: "try_get_user mem_env [] (claims_get (example_claims [''users''])
      (OIDC_USER_CLAIM ?st) CNone) = None"
    by (rule lookup_examples)
  have h2: "\<not> OIDC_SIGNUP_ENABLED ?st"
    by simp
  have t: "TryGetUser (CText ''bob@example.com'')
      \<in> set (trace (authenticate mem_env ?st (example_claims [''users'']) []))"
    by (simp add: model_defs example_defs Let_def)
  from signup_disabled_refused [OF h1 h2] h1 h2 t show ?thesis
    by blast
qed

subsection \<open>Exceptions while a user is created\<close>

text \<open>
  Claim C3. In a call that reaches the creation of a user (the lookup is reached and
  finds no user, and signup is enabled), when \<^verbatim>\<open>repos.users.create\<close> raises, or
  the \<^verbatim>\<open>session.commit\<close> after it raises, \<open>authenticate\<close> returns \<^verbatim>\<open>None\<close>: the
  exception does not leave the method.
\<close>

theorem create_failure_refused:
  assumes "reaches_lookup st claims"
    and "try_get_user env s (claims_get claims (OIDC_USER_CLAIM st) CNone) = None"
    and "OIDC_SIGNUP_ENABLED st"
    and "isl (fst (users_create env s (new_user_data st claims (is_admin st claims))))
       \<or> isl (fst (session_commit env
                (snd (users_create env s (new_user_data st claims (is_admin st claims))))))"
  shows "result (authenticate env st claims s) = Inr None"
  using assms
  by (auto simp: authenticate_not_found create_user_def Let_def split: prod.splits sum.splits)

text \<open>
  Bob is unknown and in the user group; in one environment the create raises, in the
  other the commit.
\<close>

theorem create_failure_refused_witness:
  "reaches_lookup example_settings (example_claims [''users''])
   \<and> OIDC_SIGNUP_ENABLED example_settings
   \<and> isl (fst (users_create env_create_raises []
        (new_user_data example_settings (example_claims [''users''])
           (is_admin example_settings (example_claims [''users''])))))
   \<and> result (authenticate env_create_raises example_settings (example_claims [''users'']) [])
        = Inr None
   \<and> isl (fst (session_commit env_commit_raises
        (snd (users_create env_commit_raises []
           (new_user_data example_settings (example_claims [''users''])
              (is_admin example_settings (example_claims [''users''])))))))
   \<and> result (authenticate env_commit_raises example_settings (example_claims [''users'']) [])
        = Inr None"
proof -
  let ?c = "example_claims [''users'']"
  let ?d = "new_user_data example_settings ?c (is_admin example_settings ?c)"
  have r: "reaches_lookup example_settings ?c"
    by (simp add: reaches_lookup_examples)
  have n1: "try_get_user env_create_raises []
      (claims_get ?c (OIDC_USER_CLAIM example_settings) CNone) = None"
    and n2: "try_get_user env_commit_raises []
      (claims_get ?c (OIDC_USER_CLAIM example_settings) CNone) = None"
    by (rule lookup_examples)+
  have e: "OIDC_SIGNUP_ENABLED example_settings"
    by (simp add: example_settings_def)
  have f1: "isl (fst (users_create env_create_raises [] ?d))"
    by (simp add: env_create_raises_def)
  have f2: "isl (fst (session_commit env_commit_raises
      (snd (users_create env_commit_raises [] ?d))))"
    by (simp add: env_commit_raises_def)
  from f1 have "result (authenticate env_create_raises example_settings ?c []) = Inr None"
    using create_failure_refused [OF r n1 e] by blast
  moreover from f2 have "result (authenticate env_commit_raises example_settings ?c []) = Inr None"
    using create_failure_refused [OF r n2 e] by blast
  ultimately show ?thesis
    using r e f1 f2 by blast
qed

subsection \<open>Writes in one call\<close>

text \<open>
  Claim C8. One call of \<open>authenticate\<close> makes at most one write to the user
  repository: the creates and updates of its trace are one event at most, so never a
  create and an update, and never two of either.
\<close>

theorem at_most_one_write:
  "length (filter is_write (trace (authenticate env st claims s))) \<le> 1"
proof (cases "reaches_lookup st claims")
  case False
  then show ?thesis
    by (simp add: authenticate_refused_early)
next
  case r: True
  show ?thesis
  proof (cases "try_get_user env s (claims_get claims (OIDC_USER_CLAIM st) CNone)")
    case None
    with r show ?thesis
      by (simp add: authenticate_not_found create_user_def Let_def filter_group_log
          split: prod.splits sum.splits)
  next
    case (Some u)
    with r show ?thesis
      by (simp add: authenticate_found sync_admin_def Let_def filter_group_log
          split: prod.splits sum.splits)
  qed
qed

text \<open>The run that demotes Bob makes one write, the update.\<close>

theorem at_most_one_write_witness:
  "filter is_write
     (trace (authenticate mem_env example_settings (example_claims [''users'']) [bob True]))
     = [UsersUpdate 0 (bob False)]
   \<and> length (filter is_write
       (trace (authenticate mem_env example_settings (example_claims [''users'']) [bob True])))
     \<le> 1"
  using at_most_one_write [of mem_env example_settings "example_claims [''users'']" "[bob True]"]
  by (simp add: run_existing_user_group)

subsection \<open>The last branch\<close>

text \<open>
  Claim C10. The last branch of \<open>authenticate\<close>, which logs the warning that the
  user was found but the auth method does not match and returns \<^verbatim>\<open>None\<close>, is never
  taken: no call logs that warning. The branch without a user ends the call in each of
  its cases, and after it the variable holds a user, which the test \<^verbatim>\<open>if user\<close>
  accepts.
\<close>

theorem final_branch_unreachable:
  "Log Warning_auth_method_does_not_match \<notin> set (trace (authenticate env st claims s))"
proof -
  have g: "Log Warning_auth_method_does_not_match \<notin> set (group_log st claims)"
    by (simp add: group_log_def)
  show ?thesis
  proof (cases "try_get_user env s (claims_get claims (OIDC_USER_CLAIM st) CNone)")
    case None
    with g show ?thesis
      by (simp add: authenticate_def create_user_def Let_def split: prod.splits sum.splits)
  next
    case (Some u)
    with g show ?thesis
      by (simp add: authenticate_def sync_admin_def Let_def split: prod.splits sum.splits)
  qed
qed

text \<open>A user of another auth method is not found, and the call ends in the creation.\<close>

theorem final_branch_unreachable_witness:
  "try_get_user mem_env [(bob True)\<lparr>auth_method := MEALIE\<rparr>]
       (claims_get (example_claims [''users'']) ''email'' CNone) = None
   \<and> Log Warning_auth_method_does_not_match
       \<notin> set (trace (authenticate mem_env example_settings (example_claims [''users''])
             [(bob True)\<lparr>auth_method := MEALIE\<rparr>]))"
proof -
  have "try_get_user mem_env [(bob True)\<lparr>auth_method := MEALIE\<rparr>]
       (claims_get (example_claims [''users'']) ''email'' CNone) = None"
    by (simp add: model_defs example_defs)
  then show ?thesis
    using final_branch_unreachable [of mem_env example_settings "example_claims [''users'']"
        "[(bob True)\<lparr>auth_method := MEALIE\<rparr>]"]
    by blast
qed

subsection \<open>Creating a user\<close>

text \<open>
  Claim C6. In a call that reaches the lookup, finds no user and has signup enabled,
  the one write is a create. Its username is the value of \<^verbatim>\<open>preferred_username\<close>
  when the claims have that key, else that of \<^verbatim>\<open>username\<close> when they have that
  key, else that of the user claim; its password is the marker \<^verbatim>\<open>OIDC\<close>, its full
  name the value of the name claim, its email the value of \<^verbatim>\<open>email\<close>, its admin
  flag the computed \<open>is_admin\<close> (false when the group check is off), its auth method
  OIDC. When the create and the commit succeed, the call returns the access token of
  the user that the create returned, and the database is the committed one.
\<close>

theorem new_user_created:
  assumes "reaches_lookup st claims"
    and "try_get_user env s (claims_get claims (OIDC_USER_CLAIM st) CNone) = None"
    and "OIDC_SIGNUP_ENABLED st"
  shows "\<exists>d. filter is_write (trace (authenticate env st claims s)) = [UsersCreate d]
      \<and> Some (d_username d) =
          (case map_of claims ''preferred_username'' of
             Some v \<Rightarrow> Some v
           | None \<Rightarrow>
              (case map_of claims ''username'' of
                 Some v \<Rightarrow> Some v
               | None \<Rightarrow> map_of claims (OIDC_USER_CLAIM st)))
      \<and> d_password d = ''OIDC''
      \<and> map_of claims (OIDC_NAME_CLAIM st) = Some (d_full_name d)
      \<and> map_of claims ''email'' = Some (d_email d)
      \<and> d_admin d = is_admin st claims
      \<and> (\<not> OIDC_REQUIRES_GROUP_CLAIM st \<longrightarrow> \<not> d_admin d)
      \<and> d_auth_method d = OIDC
      \<and> (\<forall>u s1 s2. users_create env s d = (Inr u, s1) \<and> session_commit env s1 = (Inr (), s2)
            \<longrightarrow> result (authenticate env st claims s)
                  = Inr (Some (get_access_token env u (OIDC_REMEMBER_ME st)))
              \<and> final_db (authenticate env st claims s) = s2)"
proof -
  let ?d = "new_user_data st claims (is_admin st claims)"
  from assms have a: "authenticate env st claims s =
      create_user env st claims (is_admin st claims) s
        (group_log st claims @ [TryGetUser (claims_get claims (OIDC_USER_CLAIM st) CNone)])"
    by (simp add: authenticate_not_found)
  have w: "filter is_write (trace (authenticate env st claims s)) = [UsersCreate ?d]"
    by (simp add: a create_user_def Let_def filter_group_log split: prod.splits sum.splits)
  from required_present [OF assms(1)] obtain n e u where
    p: "map_of claims (OIDC_NAME_CLAIM st) = Some n" "map_of claims ''email'' = Some e"
       "map_of claims (OIDC_USER_CLAIM st) = Some u"
    by blast
  have n: "Some (d_username ?d) =
          (case map_of claims ''preferred_username'' of
             Some v \<Rightarrow> Some v
           | None \<Rightarrow>
              (case map_of claims ''username'' of
                 Some v \<Rightarrow> Some v
               | None \<Rightarrow> map_of claims (OIDC_USER_CLAIM st)))"
    by (simp add: new_user_data_def new_username_def claims_get_def p split: option.splits)
  have f: "d_password ?d = ''OIDC''" "map_of claims (OIDC_NAME_CLAIM st) = Some (d_full_name ?d)"
    "map_of claims ''email'' = Some (d_email ?d)" "d_admin ?d = is_admin st claims"
    "\<not> OIDC_REQUIRES_GROUP_CLAIM st \<longrightarrow> \<not> d_admin ?d" "d_auth_method ?d = OIDC"
    by (simp_all add: new_user_data_def claims_get_def p is_admin_def)
  have t: "\<forall>u s1 s2. users_create env s ?d = (Inr u, s1) \<and> session_commit env s1 = (Inr (), s2)
            \<longrightarrow> result (authenticate env st claims s)
                  = Inr (Some (get_access_token env u (OIDC_REMEMBER_ME st)))
              \<and> final_db (authenticate env st claims s) = s2"
    by (simp add: a create_user_def Let_def)
  from w n f t show ?thesis
    by blast
qed

text \<open>
  Bob is unknown and in the user group: he is created with the username of
  \<^verbatim>\<open>preferred_username\<close> and without the admin flag, and gets a token.
\<close>

theorem new_user_created_witness:
  "reaches_lookup example_settings (example_claims [''users''])
   \<and> try_get_user mem_env []
        (claims_get (example_claims [''users'']) (OIDC_USER_CLAIM example_settings) CNone) = None
   \<and> OIDC_SIGNUP_ENABLED example_settings
   \<and> filter is_write
        (trace (authenticate mem_env example_settings (example_claims [''users'']) []))
      = [UsersCreate \<lparr>d_username = CText ''bob'', d_password = ''OIDC'',
           d_full_name = CText ''Bob'', d_email = CText ''bob@example.com'',
           d_admin = False, d_auth_method = OIDC\<rparr>]
   \<and> result (authenticate mem_env example_settings (example_claims [''users'']) [])
      = Inr (Some (''token for bob'', 48))
   \<and> final_db (authenticate mem_env example_settings (example_claims [''users'']) [])
      = [new_bob False]"
proof -
  let ?c = "example_claims [''users'']"
  let ?d = "\<lparr>d_username = CText ''bob'', d_password = ''OIDC'',
           d_full_name = CText ''Bob'', d_email = CText ''bob@example.com'',
           d_admin = False, d_auth_method = OIDC\<rparr>"
  have r: "reaches_lookup example_settings ?c"
    by (simp add: reaches_lookup_examples)
  have l: "try_get_user mem_env [] (claims_get ?c (OIDC_USER_CLAIM example_settings) CNone) = None"
    by (rule lookup_examples)
  have e: "OIDC_SIGNUP_ENABLED example_settings"
    by (simp add: example_settings_def)
  from new_user_created [OF r l e] obtain d where
    w: "filter is_write (trace (authenticate mem_env example_settings ?c [])) = [UsersCreate d]"
    and t: "\<forall>u s1 s2. users_create mem_env [] d = (Inr u, s1)
              \<and> session_commit mem_env s1 = (Inr (), s2)
            \<longrightarrow> result (authenticate mem_env example_settings ?c [])
                  = Inr (Some (get_access_token mem_env u (OIDC_REMEMBER_ME example_settings)))
              \<and> final_db (authenticate mem_env example_settings ?c []) = s2"
    by blast
  from w have d: "d = ?d"
    by (simp add: run_new_user)
  have "users_create mem_env [] ?d = (Inr (new_bob False), [new_bob False])"
    "session_commit mem_env [new_bob False] = (Inr (), [new_bob False])"
    by (simp_all add: example_defs Let_def)
  with t d have "result (authenticate mem_env example_settings ?c [])
        = Inr (Some (get_access_token mem_env (new_bob False) (OIDC_REMEMBER_ME example_settings)))
      \<and> final_db (authenticate mem_env example_settings ?c []) = [new_bob False]"
    by blast
  then have "result (authenticate mem_env example_settings ?c []) = Inr (Some (''token for bob'', 48))
      \<and> final_db (authenticate mem_env example_settings ?c []) = [new_bob False]"
    by (simp add: example_defs)
  with r l e w d show ?thesis
    by blast
qed

subsection \<open>The admin flag of a user that exists\<close>

text \<open>Two more runs with Bob stored as an admin.\<close>

text \<open>The group check runs, no admin group is configured: nothing is written.\<close>

lemma run_no_admin_group:
  "authenticate mem_env settings_no_admin_group (example_claims [''users'']) [bob True] =
     (Inr (Some (''token for bob@example.com'', 48)), [bob True],
      [Log (Debug_user_groups (CList [''users''])), Log Debug_user_has_required_user_group,
       TryGetUser (CText ''bob@example.com''), GetAccessToken (bob True) False])"
  by (simp add: model_defs example_defs Let_def)

text \<open>The group check is off, an admin group is configured: Bob is demoted.\<close>

lemma run_group_check_off:
  "authenticate mem_env settings_group_check_off (example_claims [''admins'']) [bob True] =
     (Inr (Some (''token for bob@example.com'', 48)), [bob False],
      [TryGetUser (CText ''bob@example.com''), Log Debug_removing_admin,
       UsersUpdate 0 (bob False), GetAccessToken (bob False) False])"
  by (simp add: model_defs example_defs Let_def)

text \<open>
  Claim C1, as stated, fails. It ties the update of the stored admin flag to
  \<^verbatim>\<open>OIDC_REQUIRES_GROUP_CLAIM\<close>; line 96 tests \<^verbatim>\<open>OIDC_ADMIN_GROUP\<close>. With the group
  check on and no admin group configured, a stored flag that differs from
  \<open>is_admin\<close> stays as it is: no write is made and the token is issued. With the
  group check off and an admin group configured, the stored flag is changed.
\<close>

theorem admin_flag_sync_counterexample:
  "OIDC_REQUIRES_GROUP_CLAIM settings_no_admin_group
   \<and> try_get_user mem_env [bob True]
        (claims_get (example_claims [''users'']) (OIDC_USER_CLAIM settings_no_admin_group) CNone)
      = Some (bob True)
   \<and> admin (bob True) \<noteq> is_admin settings_no_admin_group (example_claims [''users''])
   \<and> result (authenticate mem_env settings_no_admin_group (example_claims [''users'']) [bob True])
      = Inr (Some (''token for bob@example.com'', 48))
   \<and> filter is_write
        (trace (authenticate mem_env settings_no_admin_group (example_claims [''users'']) [bob True]))
      = []
   \<and> map admin
        (final_db (authenticate mem_env settings_no_admin_group (example_claims [''users''])
           [bob True]))
      = [True]
   \<and> \<not> OIDC_REQUIRES_GROUP_CLAIM settings_group_check_off
   \<and> try_get_user mem_env [bob True]
        (claims_get (example_claims [''admins'']) (OIDC_USER_CLAIM settings_group_check_off) CNone)
      = Some (bob True)
   \<and> map admin
        (final_db (authenticate mem_env settings_group_check_off (example_claims [''admins''])
           [bob True]))
      = [False]"
  by (simp add: run_no_admin_group run_group_check_off)
    (simp add: model_defs example_defs)

text \<open>
  Claim C1, amended. In a call that reaches the lookup and finds a user: when
  \<^verbatim>\<open>OIDC_ADMIN_GROUP\<close> is configured and the stored admin flag differs from
  \<open>is_admin\<close>, the first and only write is an update of that user with the flag set
  to \<open>is_admin\<close>; it comes before the issue of the token, which is issued, for the
  updated user, when the update has not raised; the database is the one the update
  leaves. When \<^verbatim>\<open>OIDC_ADMIN_GROUP\<close> is not configured, no write is made, the
  database is as it was, and the token is issued for the user as found.
\<close>

theorem admin_flag_follows_admin_group:
  assumes "reaches_lookup st claims"
    and "try_get_user env s (claims_get claims (OIDC_USER_CLAIM st) CNone) = Some u"
  shows "(configured (OIDC_ADMIN_GROUP st) \<and> admin u \<noteq> is_admin st claims \<longrightarrow>
            filter (\<lambda>e. is_write e \<or> is_issue e) (trace (authenticate env st claims s))
              = UsersUpdate (user_id u) (u\<lparr>admin := is_admin st claims\<rparr>)
                # (if isl (fst (users_update env s (user_id u) (u\<lparr>admin := is_admin st claims\<rparr>)))
                   then []
                   else [GetAccessToken (u\<lparr>admin := is_admin st claims\<rparr>) (OIDC_REMEMBER_ME st)])
          \<and> final_db (authenticate env st claims s)
              = snd (users_update env s (user_id u) (u\<lparr>admin := is_admin st claims\<rparr>))
          \<and> (\<not> isl (fst (users_update env s (user_id u) (u\<lparr>admin := is_admin st claims\<rparr>))) \<longrightarrow>
               result (authenticate env st claims s)
                 = Inr (Some (get_access_token env (u\<lparr>admin := is_admin st claims\<rparr>)
                         (OIDC_REMEMBER_ME st)))))
       \<and> (\<not> configured (OIDC_ADMIN_GROUP st) \<longrightarrow>
            filter (\<lambda>e. is_write e \<or> is_issue e) (trace (authenticate env st claims s))
              = [GetAccessToken u (OIDC_REMEMBER_ME st)]
          \<and> final_db (authenticate env st claims s) = s
          \<and> result (authenticate env st claims s)
              = Inr (Some (get_access_token env u (OIDC_REMEMBER_ME st))))"
  using assms
  by (simp add: authenticate_found sync_admin_def Let_def filter_group_log
      split: prod.splits sum.splits)

text \<open>
  With the admin group configured, Bob, stored as an admin and only in the user group,
  is demoted before his token is issued; without it he stays an admin.
\<close>

theorem admin_flag_follows_admin_group_witness:
  "reaches_lookup example_settings (example_claims [''users''])
   \<and> try_get_user mem_env [bob True]
        (claims_get (example_claims [''users'']) (OIDC_USER_CLAIM example_settings) CNone)
      = Some (bob True)
   \<and> configured (OIDC_ADMIN_GROUP example_settings)
   \<and> admin (bob True) \<noteq> is_admin example_settings (example_claims [''users''])
   \<and> filter (\<lambda>e. is_write e \<or> is_issue e)
        (trace (authenticate mem_env example_settings (example_claims [''users'']) [bob True]))
      = [UsersUpdate 0 (bob False), GetAccessToken (bob False) False]
   \<and> final_db (authenticate mem_env example_settings (example_claims [''users'']) [bob True])
      = [bob False]
   \<and> reaches_lookup settings_no_admin_group (example_claims [''users''])
   \<and> \<not> configured (OIDC_ADMIN_GROUP settings_no_admin_group)
   \<and> final_db (authenticate mem_env settings_no_admin_group (example_claims [''users''])
        [bob True])
      = [bob True]"
proof -
  let ?c = "example_claims [''users'']"
  have u: "OIDC_USER_CLAIM example_settings = ''email''"
    "OIDC_USER_CLAIM settings_no_admin_group = ''email''"
    by (simp_all add: example_defs)
  have r1: "reaches_lookup example_settings ?c"
    and r2: "reaches_lookup settings_no_admin_group ?c"
    by (simp_all add: reaches_lookup_examples)
  have l1: "try_get_user mem_env [bob True]
      (claims_get ?c (OIDC_USER_CLAIM example_settings) CNone) = Some (bob True)"
    and l2: "try_get_user mem_env [bob True]
      (claims_get ?c (OIDC_USER_CLAIM settings_no_admin_group) CNone) = Some (bob True)"
    by (simp_all add: u lookup_examples)
  have c1: "configured (OIDC_ADMIN_GROUP example_settings)"
    and c2: "\<not> configured (OIDC_ADMIN_GROUP settings_no_admin_group)"
    by (simp_all add: example_defs)
  have a: "is_admin example_settings ?c = False"
    by (simp add: model_defs example_defs)
  then have d: "admin (bob True) \<noteq> is_admin example_settings ?c"
    by (simp add: bob_def)
  have b: "(bob True)\<lparr>admin := False\<rparr> = bob False" "user_id (bob True) = 0"
    "OIDC_REMEMBER_ME example_settings = False"
    by (simp_all add: bob_def example_settings_def)
  have up: "users_update mem_env [bob True] 0 (bob False) = (Inr (bob False), [bob False])"
    by (simp add: example_defs)
  from admin_flag_follows_admin_group [OF r1 l1] c1 d
  have "filter (\<lambda>e. is_write e \<or> is_issue e)
          (trace (authenticate mem_env example_settings ?c [bob True]))
        = [UsersUpdate 0 (bob False), GetAccessToken (bob False) False]
      \<and> final_db (authenticate mem_env example_settings ?c [bob True]) = [bob False]"
    by (simp add: a b up)
  moreover from admin_flag_follows_admin_group [OF r2 l2] c2
  have "final_db (authenticate mem_env settings_no_admin_group ?c [bob True]) = [bob True]"
    by blast
  ultimately show ?thesis
    using r1 r2 l1 c1 c2 d by blast
qed

text \<open>
  Claim C9. When \<^verbatim>\<open>OIDC_REQUIRES_GROUP_CLAIM\<close> is false and \<^verbatim>\<open>OIDC_ADMIN_GROUP\<close>
  is configured, \<open>is_admin\<close> is false, and every call that returns a token for a
  user that the lookup has found with the admin flag set has demoted him: its writes
  and token issues are the update of that user with the flag cleared, then the issue
  of the returned token for the updated user.
\<close>

theorem admin_demoted_when_group_check_off:
  assumes "\<not> OIDC_REQUIRES_GROUP_CLAIM st"
    and "configured (OIDC_ADMIN_GROUP st)"
    and "try_get_user env s (claims_get claims (OIDC_USER_CLAIM st) CNone) = Some u"
    and "admin u"
    and "result (authenticate env st claims s) = Inr (Some tok)"
  shows "\<not> is_admin st claims
      \<and> filter (\<lambda>e. is_write e \<or> is_issue e) (trace (authenticate env st claims s))
          = [UsersUpdate (user_id u) (u\<lparr>admin := False\<rparr>),
             GetAccessToken (u\<lparr>admin := False\<rparr>) (OIDC_REMEMBER_ME st)]
      \<and> tok = get_access_token env (u\<lparr>admin := False\<rparr>) (OIDC_REMEMBER_ME st)
      \<and> final_db (authenticate env st claims s)
          = snd (users_update env s (user_id u) (u\<lparr>admin := False\<rparr>))"
proof -
  have r: "reaches_lookup st claims"
  proof (rule ccontr)
    assume "\<not> reaches_lookup st claims"
    then have "result (authenticate env st claims s) = Inr None"
      by (rule authenticate_refused_early)
    with assms(5) show False
      by simp
  qed
  have a: "\<not> is_admin st claims"
    using assms(1) by (simp add: is_admin_def)
  from r assms(3) have "authenticate env st claims s =
      sync_admin env st (is_admin st claims) u s
        (group_log st claims @ [TryGetUser (claims_get claims (OIDC_USER_CLAIM st) CNone)])"
    by (rule authenticate_found)
  with a assms(2,4,5) show ?thesis
    by (auto simp: sync_admin_def Let_def filter_group_log split: prod.splits sum.splits)
qed

text \<open>Bob, stored as an admin, logs in with the group check off; his token even names
  the admin group.\<close>

theorem admin_demoted_when_group_check_off_witness:
  "\<not> OIDC_REQUIRES_GROUP_CLAIM settings_group_check_off
   \<and> configured (OIDC_ADMIN_GROUP settings_group_check_off)
   \<and> try_get_user mem_env [bob True]
        (claims_get (example_claims [''admins'']) (OIDC_USER_CLAIM settings_group_check_off) CNone)
      = Some (bob True)
   \<and> admin (bob True)
   \<and> result (authenticate mem_env settings_group_check_off (example_claims [''admins''])
        [bob True])
      = Inr (Some (''token for bob@example.com'', 48))
   \<and> \<not> is_admin settings_group_check_off (example_claims [''admins''])
   \<and> filter (\<lambda>e. is_write e \<or> is_issue e)
        (trace (authenticate mem_env settings_group_check_off (example_claims [''admins''])
           [bob True]))
      = [UsersUpdate 0 (bob False), GetAccessToken (bob False) False]"
proof -
  let ?c = "example_claims [''admins'']"
  have h1: "\<not> OIDC_REQUIRES_GROUP_CLAIM settings_group_check_off"
    and h2: "configured (OIDC_ADMIN_GROUP settings_group_check_off)"
    and h4: "admin (bob True)"
    by (simp_all add: example_defs)
  have h3: "try_get_user mem_env [bob True]
      (claims_get ?c (OIDC_USER_CLAIM settings_group_check_off) CNone) = Some (bob True)"
    by (simp add: model_defs example_defs)
  have h5: "result (authenticate mem_env settings_group_check_off ?c [bob True])
      = Inr (Some (''token for bob@example.com'', 48))"
    by (simp add: run_group_check_off)
  have b: "(bob True)\<lparr>admin := False\<rparr> = bob False" "user_id (bob True) = 0"
    "OIDC_REMEMBER_ME settings_group_check_off = False"
    by (simp_all add: example_defs)
  from admin_demoted_when_group_check_off [OF h1 h2 h3 h4 h5]
  have "\<not> is_admin settings_group_check_off ?c
      \<and> filter (\<lambda>e. is_write e \<or> is_issue e)
          (trace (authenticate mem_env settings_group_check_off ?c [bob True]))
        = [UsersUpdate 0 (bob False), GetAccessToken (bob False) False]"
    by (simp add: b)
  with h1 h2 h3 h4 h5 show ?thesis
    by blast
qed

subsection \<open>Exceptions of the update\<close>

text \<open>
  Claim C2 asks that no exception of the persistence layer leaves \<open>authenticate\<close>.
  The create and the commit are inside a \<^verbatim>\<open>try\<close> (claim C3); the update of
  line 99 is not. Bob is stored without the admin flag and his token names the admin
  group; the update raises, and the exception is the result of the call.
\<close>

theorem update_exception_escapes:
  "result (authenticate env_update_raises example_settings (example_claims [''admins''])
     [bob False]) = Inl db_down"
  by (simp add: model_defs example_defs Let_def)

subsection \<open>The group check\<close>

text \<open>
  The claim about the group check speaks of the list of groups in the groups claim.
  When the value of the claim is a string, \<^verbatim>\<open>in\<close> searches it for the group name:
  here the admin group \<^verbatim>\<open>admins\<close> is found inside one longer name.
\<close>

lemma string_group_claim_is_searched:
  "is_admin example_settings
     [(''email'', CText ''bob@example.com''), (''name'', CText ''Bob''),
      (''groups'', CText ''mealie-admins-readonly'')]"
  by (simp add: example_settings_def is_admin_def admin_group_check_def group_claim_def
      claims_get_def sublist_code prefix_code)

text \<open>A user that is found gets the token of his record with the admin flag \<open>adm\<close>,
  when an admin group is configured and the update, if one is made, does not raise.\<close>

lemma sync_admin_token:
  assumes "configured (OIDC_ADMIN_GROUP st)"
    and "\<not> isl (fst (users_update env s (user_id u) (u\<lparr>admin := adm\<rparr>)))"
  shows "result (sync_admin env st adm u s tr)
     = Inr (Some (get_access_token env (u\<lparr>admin := adm\<rparr>) (OIDC_REMEMBER_ME st)))"
proof (cases "admin u = adm")
  case True
  have "result (sync_admin env st (admin u) u s tr)
     = Inr (Some (get_access_token env (u\<lparr>admin := admin u\<rparr>) (OIDC_REMEMBER_ME st)))"
    by (simp add: sync_admin_def)
  then show ?thesis
    unfolding True .
next
  case False
  with assms show ?thesis
    by (auto simp: sync_admin_def Let_def split: prod.splits sum.splits)
qed

text \<open>
  Claim C4. Let the group check be on, and let \<open>gs\<close> be the list of groups in the
  groups claim, the empty list when the claim is missing or null. Then \<open>is_admin\<close>
  holds exactly when the admin group is configured and is in \<open>gs\<close>;
  \<open>is_valid_user\<close> holds exactly when the user group is not configured or is in
  \<open>gs\<close>; when neither holds the call returns \<^verbatim>\<open>None\<close>, with the database as it
  was and only log lines in its trace; when one of them holds and the required claims
  are there, the call goes on to the lookup, and a user that is found gets, when the
  admin group is configured and no update raises, the token of his record with the
  admin flag \<open>is_admin\<close>. In particular, with both groups configured: a user in the
  user group only passes with \<open>is_admin\<close> false, a user in the admin group only
  passes with \<open>is_admin\<close> true, and a user in neither is refused.
\<close>

theorem group_check:
  assumes "OIDC_REQUIRES_GROUP_CLAIM st"
    and "map_of claims (OIDC_GROUPS_CLAIM st) = Some (CList gs)
       \<or> (map_of claims (OIDC_GROUPS_CLAIM st) = None
          \<or> map_of claims (OIDC_GROUPS_CLAIM st) = Some CNone) \<and> gs = []"
  shows "(is_admin st claims \<longleftrightarrow>
            configured (OIDC_ADMIN_GROUP st) \<and> (\<exists>a. OIDC_ADMIN_GROUP st = Some a \<and> a \<in> set gs))
       \<and> (is_valid_user st claims \<longleftrightarrow>
            \<not> configured (OIDC_USER_GROUP st) \<or> (\<exists>g. OIDC_USER_GROUP st = Some g \<and> g \<in> set gs))
       \<and> (\<not> (is_valid_user st claims \<or> is_admin st claims) \<longrightarrow>
            result (authenticate env st claims s) = Inr None
          \<and> final_db (authenticate env st claims s) = s
          \<and> filter (\<lambda>e. \<not> is_log e) (trace (authenticate env st claims s)) = [])
       \<and> ((is_valid_user st claims \<or> is_admin st claims)
            \<and> claims \<noteq> [] \<and> required_claims st \<subseteq> keys claims \<longrightarrow>
            TryGetUser (claims_get claims (OIDC_USER_CLAIM st) CNone)
              \<in> set (trace (authenticate env st claims s))
          \<and> (\<forall>u. try_get_user env s (claims_get claims (OIDC_USER_CLAIM st) CNone) = Some u
                \<and> configured (OIDC_ADMIN_GROUP st)
                \<and> \<not> isl (fst (users_update env s (user_id u) (u\<lparr>admin := is_admin st claims\<rparr>)))
              \<longrightarrow> result (authenticate env st claims s)
                    = Inr (Some (get_access_token env (u\<lparr>admin := is_admin st claims\<rparr>)
                            (OIDC_REMEMBER_ME st)))))
       \<and> (\<forall>a g. OIDC_ADMIN_GROUP st = Some a \<and> a \<noteq> [] \<and> OIDC_USER_GROUP st = Some g \<and> g \<noteq> [] \<longrightarrow>
            (g \<in> set gs \<and> a \<notin> set gs \<longrightarrow> is_valid_user st claims \<and> \<not> is_admin st claims)
          \<and> (a \<in> set gs \<and> g \<notin> set gs \<longrightarrow> is_admin st claims)
          \<and> (a \<notin> set gs \<and> g \<notin> set gs \<longrightarrow> result (authenticate env st claims s) = Inr None))"
proof -
  let ?name = "claims_get claims (OIDC_USER_CLAIM st) CNone"
  have gc: "group_claim st claims = CList gs"
    using assms(2) by (rule group_claim_list)
  have adm: "is_admin st claims \<longleftrightarrow>
      configured (OIDC_ADMIN_GROUP st) \<and> (\<exists>a. OIDC_ADMIN_GROUP st = Some a \<and> a \<in> set gs)"
    using assms(1) by (auto simp: is_admin_def admin_group_check_def gc split: option.splits)
  have val: "is_valid_user st claims \<longleftrightarrow>
      \<not> configured (OIDC_USER_GROUP st) \<or> (\<exists>g. OIDC_USER_GROUP st = Some g \<and> g \<in> set gs)"
    by (auto simp: is_valid_user_def gc split: option.splits)
  have ref: "\<not> (is_valid_user st claims \<or> is_admin st claims) \<longrightarrow>
            result (authenticate env st claims s) = Inr None
          \<and> final_db (authenticate env st claims s) = s
          \<and> filter (\<lambda>e. \<not> is_log e) (trace (authenticate env st claims s)) = []"
    using assms(1) by (simp add: authenticate_refused_early reaches_lookup_def)
  have pass: "(is_valid_user st claims \<or> is_admin st claims)
            \<and> claims \<noteq> [] \<and> required_claims st \<subseteq> keys claims \<longrightarrow>
            TryGetUser ?name \<in> set (trace (authenticate env st claims s))
          \<and> (\<forall>u. try_get_user env s ?name = Some u
                \<and> configured (OIDC_ADMIN_GROUP st)
                \<and> \<not> isl (fst (users_update env s (user_id u) (u\<lparr>admin := is_admin st claims\<rparr>)))
              \<longrightarrow> result (authenticate env st claims s)
                    = Inr (Some (get_access_token env (u\<lparr>admin := is_admin st claims\<rparr>)
                            (OIDC_REMEMBER_ME st))))"
  proof (intro impI)
    assume "(is_valid_user st claims \<or> is_admin st claims)
        \<and> claims \<noteq> [] \<and> required_claims st \<subseteq> keys claims"
    then have r: "reaches_lookup st claims"
      by (simp add: reaches_lookup_def)
    then have "TryGetUser ?name \<in> set (trace (authenticate env st claims s))"
      using reaches_lookup_iff [of st claims env s] by blast
    moreover have "\<forall>u. try_get_user env s ?name = Some u
                \<and> configured (OIDC_ADMIN_GROUP st)
                \<and> \<not> isl (fst (users_update env s (user_id u) (u\<lparr>admin := is_admin st claims\<rparr>)))
              \<longrightarrow> result (authenticate env st claims s)
                    = Inr (Some (get_access_token env (u\<lparr>admin := is_admin st claims\<rparr>)
                            (OIDC_REMEMBER_ME st)))"
      by (simp add: authenticate_found [OF r] sync_admin_token)
    ultimately show "TryGetUser ?name \<in> set (trace (authenticate env st claims s))
          \<and> (\<forall>u. try_get_user env s ?name = Some u
                \<and> configured (OIDC_ADMIN_GROUP st)
                \<and> \<not> isl (fst (users_update env s (user_id u) (u\<lparr>admin := is_admin st claims\<rparr>)))
              \<longrightarrow> result (authenticate env st claims s)
                    = Inr (Some (get_access_token env (u\<lparr>admin := is_admin st claims\<rparr>)
                            (OIDC_REMEMBER_ME st))))"
      by blast
  qed
  have sc: "\<forall>a g. OIDC_ADMIN_GROUP st = Some a \<and> a \<noteq> [] \<and> OIDC_USER_GROUP st = Some g \<and> g \<noteq> [] \<longrightarrow>
            (g \<in> set gs \<and> a \<notin> set gs \<longrightarrow> is_valid_user st claims \<and> \<not> is_admin st claims)
          \<and> (a \<in> set gs \<and> g \<notin> set gs \<longrightarrow> is_admin st claims)
          \<and> (a \<notin> set gs \<and> g \<notin> set gs \<longrightarrow> result (authenticate env st claims s) = Inr None)"
  proof (intro allI impI)
    fix a g
    assume c: "OIDC_ADMIN_GROUP st = Some a \<and> a \<noteq> [] \<and> OIDC_USER_GROUP st = Some g \<and> g \<noteq> []"
    then have "is_admin st claims \<longleftrightarrow> a \<in> set gs" "is_valid_user st claims \<longleftrightarrow> g \<in> set gs"
      by (simp_all add: adm val)
    with ref show "(g \<in> set gs \<and> a \<notin> set gs \<longrightarrow> is_valid_user st claims \<and> \<not> is_admin st claims)
          \<and> (a \<in> set gs \<and> g \<notin> set gs \<longrightarrow> is_admin st claims)
          \<and> (a \<notin> set gs \<and> g \<notin> set gs \<longrightarrow> result (authenticate env st claims s) = Inr None)"
      by blast
  qed
  from adm val ref pass sc show ?thesis
    by blast
qed

text \<open>
  Bob is stored; his token names the user group only, the admin group only, or another
  group.
\<close>

theorem group_check_witness:
  "OIDC_REQUIRES_GROUP_CLAIM example_settings
   \<and> map_of (example_claims [''users'']) (OIDC_GROUPS_CLAIM example_settings)
      = Some (CList [''users''])
   \<and> is_valid_user example_settings (example_claims [''users''])
   \<and> \<not> is_admin example_settings (example_claims [''users''])
   \<and> result (authenticate mem_env example_settings (example_claims [''users'']) [bob True])
      = Inr (Some (''token for bob@example.com'', 48))
   \<and> final_db (authenticate mem_env example_settings (example_claims [''users'']) [bob True])
      = [bob False]
   \<and> is_admin example_settings (example_claims [''admins''])
   \<and> result (authenticate mem_env example_settings (example_claims [''admins'']) [bob False])
      = Inr (Some (''token for bob@example.com'', 48))
   \<and> final_db (authenticate mem_env example_settings (example_claims [''admins'']) [bob False])
      = [bob True]
   \<and> result (authenticate mem_env example_settings (example_claims [''guests'']) [bob True])
      = Inr None"
proof -
  have req: "OIDC_REQUIRES_GROUP_CLAIM example_settings"
    and ag: "OIDC_ADMIN_GROUP example_settings = Some ''admins''"
    and ug: "OIDC_USER_GROUP example_settings = Some ''users''"
    and rm: "OIDC_REMEMBER_ME example_settings = False"
    and uc: "OIDC_USER_CLAIM example_settings = ''email''"
    by (simp_all add: example_settings_def)
  have gl: "map_of (example_claims gs) (OIDC_GROUPS_CLAIM example_settings) = Some (CList gs)
      \<or> (map_of (example_claims gs) (OIDC_GROUPS_CLAIM example_settings) = None
         \<or> map_of (example_claims gs) (OIDC_GROUPS_CLAIM example_settings) = Some CNone)
        \<and> gs = []" for gs
    by (simp add: example_defs)
  have pr: "example_claims gs \<noteq> [] \<and> required_claims example_settings \<subseteq> keys (example_claims gs)"
    for gs
    by (simp add: example_defs required_claims_def keys_def)
  have up: "\<not> isl (fst (users_update mem_env db i u))" for db i u
    by (simp add: example_defs)
  note users = group_check [where env = mem_env and s = "[bob True]", OF req gl [of "[''users'']"]]
  note admins = group_check [where env = mem_env and s = "[bob False]", OF req gl [of "[''admins'']"]]
  note guests = group_check [where env = mem_env and s = "[bob True]", OF req gl [of "[''guests'']"]]
  have u1: "is_valid_user example_settings (example_claims [''users''])
      \<and> \<not> is_admin example_settings (example_claims [''users''])"
    using users ag ug by simp
  with users pr [of "[''users'']"] up ag
  have u2: "result (authenticate mem_env example_settings (example_claims [''users'']) [bob True])
      = Inr (Some (''token for bob@example.com'', 48))"
    by (simp add: lookup_examples uc rm) (simp add: example_defs)
  have a1: "is_admin example_settings (example_claims [''admins''])"
    using admins ag ug by simp
  with admins pr [of "[''admins'']"] up ag
  have a2: "result (authenticate mem_env example_settings (example_claims [''admins'']) [bob False])
      = Inr (Some (''token for bob@example.com'', 48))"
    by (simp add: lookup_examples uc rm) (simp add: example_defs)
  have g1: "result (authenticate mem_env example_settings (example_claims [''guests'']) [bob True])
      = Inr None"
    using guests ag ug by simp
  have m: "map_of (example_claims [''users'']) (OIDC_GROUPS_CLAIM example_settings)
      = Some (CList [''users''])"
    by (simp add: example_defs)
  have f: "final_db (authenticate mem_env example_settings (example_claims [''users'']) [bob True])
      = [bob False]"
    "final_db (authenticate mem_env example_settings (example_claims [''admins'']) [bob False])
      = [bob True]"
    by (simp_all add: run_existing_user_group run_existing_admin_group)
  from req m u1 u2 a1 a2 g1 f show ?thesis
    by blast
qed

end
